theory Spec2Isabelle
  imports Main "HOL-Library.Word" "HOL-Library.Sublist" "HOL-Library.Multiset"
begin

section \<open>getnew: moving the nth newest file\<close>

text \<open>
  The repository holds two revisions of the one Go file of package \<open>cmd\<close>:
  \<^item> \<open>src/unnamed/part_000\<close>: \<open>moveNthNewestFile\<close> collects the candidates and calls
    \<open>moveFile\<close>, which selects, copies and removes; \<open>unarchiveFile\<close> is the archive step;
  \<^item> \<open>src/cmd/root.go\<close>: one \<open>moveNthNewestFile\<close> with the same collection and selection,
    relocating with \<open>os.Rename\<close>, and no archive step.
  The definitions below follow \<open>part_000\<close>; the definitions whose names end in \<open>_root\<close>
  follow \<open>src/cmd/root.go\<close> where it differs.
\<close>

subsection \<open>The Go library functions the code calls\<close>

text \<open>
  \<open>strings.ToLower\<close> on ASCII text: the letters \<open>A\<close> to \<open>Z\<close> are moved to \<open>a\<close> to \<open>z\<close>,
  every other byte is kept. (Go also lowers letters beyond ASCII; names and filters
  here are byte strings and only ASCII letters are lowered.)
\<close>

definition lower_byte :: "char \<Rightarrow> char" where
  "lower_byte c =
     (case map_of (zip ''ABCDEFGHIJKLMNOPQRSTUVWXYZ'' ''abcdefghijklmnopqrstuvwxyz'') c of
        Some l \<Rightarrow> l
      | None \<Rightarrow> c)"

definition strings_ToLower :: "string \<Rightarrow> string" where
  "strings_ToLower s = map lower_byte s"

text \<open>\<open>strings.Contains(s, substr)\<close>: \<open>substr\<close> occurs in \<open>s\<close> at some offset.\<close>

fun strings_Contains :: "string \<Rightarrow> string \<Rightarrow> bool" where
  "strings_Contains [] substr = (substr = [])"
| "strings_Contains (c # s) substr = (prefix substr (c # s) \<or> strings_Contains s substr)"

text \<open>
  \<open>filepath.Ext(path)\<close>: the loop walks from the last byte towards the first, stops at
  a path separator, and returns the suffix that starts at the first dot it meets.
  \<open>ext_loop\<close> takes the bytes still to visit (last first) and the bytes already passed.
\<close>

fun ext_loop :: "string \<Rightarrow> string \<Rightarrow> string" where
  "ext_loop [] passed = []"
| "ext_loop (c # rest) passed =
     (if c = CHR ''/'' then []
      else if c = CHR ''.'' then c # passed
      else ext_loop rest (c # passed))"

definition filepath_Ext :: "string \<Rightarrow> string" where
  "filepath_Ext p = ext_loop (rev p) []"

text \<open>\<open>t.After(u)\<close> on instants, counted in nanoseconds.\<close>

definition After :: "int \<Rightarrow> int \<Rightarrow> bool" where
  "After t u = (u < t)"

text \<open>The verb \<open>%d\<close> of \<open>fmt\<close>: a number in decimal.\<close>

fun digits :: "nat \<Rightarrow> string" where
  "digits n =
     (if n < 10 then [char_of (48 + n)] else digits (n div 10) @ [char_of (48 + n mod 10)])"

declare digits.simps [simp del]

definition fmt_d :: "int \<Rightarrow> string" where
  "fmt_d i = (if i < 0 then CHR ''-'' # digits (nat (- i)) else digits (nat i))"

subsection \<open>Directory entries and file information\<close>

record FileInfo =
  Name :: string
  ModTime :: int

text \<open>
  An entry of \<open>os.ReadDir\<close>: its name, whether it is a directory, and what the lstat
  behind \<open>Info()\<close> answers (an error text, or the modification time).
\<close>

record DirEntry =
  EntryName :: string
  IsDir :: bool
  Stat :: "string + int"

definition Info :: "DirEntry \<Rightarrow> string + FileInfo" where
  "Info file =
     (case Stat file of
        Inl err \<Rightarrow> Inl err
      | Inr t \<Rightarrow> Inr \<lparr>Name = EntryName file, ModTime = t\<rparr>)"

subsection \<open>Errors\<close>

text \<open>
  One constructor for each \<open>fmt.Errorf\<close> of the source; the string argument is the
  wrapped error (\<open>%w\<close>) or the value of \<open>%s\<close>. \<open>message\<close> gives the text of the error.
\<close>

datatype error =
    ReadSourceDirError string
  | FileInfoError string
  | NoFilesMatching string
  | NoFiles
  | OutOfRange int nat
  | OpenError string
  | CreateError string
  | CopyError string
  | CloseSourceError string
  | CloseDestError string
  | RemoveError string
  | MoveError string
  | ReadCurrentDirError string
  | UnarchiveError string string
  | RemoveArchiveError string
  | NoArchiveFound

fun message :: "error \<Rightarrow> string" where
  "message (ReadSourceDirError e) = ''failed to read source directory: '' @ e"
| "message (FileInfoError e) = ''failed to get file info: '' @ e"
| "message (NoFilesMatching f) =
     ''no files matching '' @ [CHR 0x27] @ f @ [CHR 0x27] @ '' found in the source directory''"
| "message NoFiles = ''no files found in the source directory''"
| "message (OutOfRange n k) =
     ''requested '' @ fmt_d n @ ''th newest file, but only '' @ fmt_d (int k)
       @ '' files available''"
| "message (OpenError e) = ''failed to open source file: '' @ e"
| "message (CreateError e) = ''failed to create destination file: '' @ e"
| "message (CopyError e) = ''failed to copy file: '' @ e"
| "message (CloseSourceError e) = ''failed to close source file: '' @ e"
| "message (CloseDestError e) = ''failed to close destination file: '' @ e"
| "message (RemoveError e) = ''failed to remove original file: '' @ e"
| "message (MoveError e) = ''failed to move file: '' @ e"
| "message (ReadCurrentDirError e) = ''failed to read current directory: '' @ e"
| "message (UnarchiveError f e) = ''failed to unarchive '' @ f @ '': '' @ e"
| "message (RemoveArchiveError e) = ''failed to remove original archive file: '' @ e"
| "message NoArchiveFound = ''no recognized archive file found in the current directory''"

text \<open>
  What a call ends with: it returns \<open>nil\<close> (\<open>Ok\<close>), it returns an error, or the Go
  runtime panics on a slice index out of range (the index and the length).
\<close>

datatype 'a outcome = Ok 'a | Err error | IndexPanic int nat

subsection \<open>Collecting the candidates (\<open>moveNthNewestFile\<close>, the loop)\<close>

text \<open>
  The loop over the entries: directories are skipped; \<open>Info()\<close> is asked of every
  other entry before the filter is looked at, and its error ends the function.
\<close>

fun collect :: "string \<Rightarrow> DirEntry list \<Rightarrow> FileInfo list \<Rightarrow> error + FileInfo list" where
  "collect fileFilter [] regularFiles = Inr regularFiles"
| "collect fileFilter (file # files) regularFiles =
     (if \<not> IsDir file then
        (case Info file of
           Inl err \<Rightarrow> Inl (FileInfoError err)
         | Inr info \<Rightarrow>
             if fileFilter = [] \<or>
                strings_Contains (strings_ToLower (Name info)) (strings_ToLower fileFilter)
             then collect fileFilter files (regularFiles @ [info])
             else collect fileFilter files regularFiles)
      else collect fileFilter files regularFiles)"

subsection \<open>Selecting the file (\<open>moveFile\<close>, up to \<open>fileToMove\<close>)\<close>

text \<open>
  \<open>sort.Slice\<close> is library code: it reorders the slice in place with the comparison it
  is given, and its documentation promises a sorted result and no stability. The model
  takes it as the parameter \<open>sort_Slice\<close>; \<open>sort_Slice_spec\<close> is what the library
  promises for a comparison \<open>lessf\<close>.
\<close>

type_synonym sorter = "(FileInfo \<Rightarrow> FileInfo \<Rightarrow> bool) \<Rightarrow> FileInfo list \<Rightarrow> FileInfo list"

definition sort_Slice_spec :: "sorter \<Rightarrow> (FileInfo \<Rightarrow> FileInfo \<Rightarrow> bool) \<Rightarrow> bool" where
  "sort_Slice_spec sort_Slice lessf \<longleftrightarrow>
     (\<forall>xs. mset (sort_Slice lessf xs) = mset xs \<and>
           sorted_wrt (\<lambda>a b. \<not> lessf b a) (sort_Slice lessf xs))"

definition newer :: "FileInfo \<Rightarrow> FileInfo \<Rightarrow> bool" where
  "newer a b = After (ModTime a) (ModTime b)"

text \<open>
  \<open>nthNewest\<close> is a Go \<open>int\<close> (64 bits, signed): the comparison with the length is
  signed, and \<open>nthNewest - 1\<close> wraps. Indexing outside the slice panics.
\<close>

definition selectFile :: "sorter \<Rightarrow> FileInfo list \<Rightarrow> 64 word \<Rightarrow> string \<Rightarrow> FileInfo outcome" where
  "selectFile sort_Slice regularFiles nthNewest fileFilter =
     (if length regularFiles = 0 then
        (if fileFilter \<noteq> [] then Err (NoFilesMatching fileFilter) else Err NoFiles)
      else
        let sortedFiles = sort_Slice newer regularFiles in
        if int (length sortedFiles) < sint nthNewest
        then Err (OutOfRange (sint nthNewest) (length sortedFiles))
        else
          let i = sint (nthNewest - 1) in
          if i < 0 \<or> int (length sortedFiles) \<le> i then IndexPanic i (length sortedFiles)
          else Ok (sortedFiles ! nat i))"

subsection \<open>Files and the operating system\<close>

text \<open>
  A path names a file by its directory and its base name: \<open>filepath.Join(dir, name)\<close>
  of a directory and an entry name. The current directory is \<open>''.''\<close>, so a bare entry
  name (as \<open>os.Remove(file.Name())\<close> uses it) is \<open>Path ''.'' name\<close>. Two spellings of
  one directory are not identified.
\<close>

datatype path = Path string string

definition filepath_Join :: "string \<Rightarrow> string \<Rightarrow> path" where
  "filepath_Join dir name = Path dir name"

text \<open>The calls the program makes to the operating system, in the order it makes them.\<close>

datatype call =
    Open path
  | Create path
  | Copy path path
  | Close path
  | Remove path
  | Rename path path
  | Exec string "string list"

text \<open>
  The world the program runs in: the contents of the files, what has been written to
  standard output and to standard error, and the calls made so far.
\<close>

record world =
  files :: "path \<rightharpoonup> string"
  stdout :: string
  stderr :: string
  calls :: "call list"

text \<open>
  What an external command does: what it writes to the inherited standard output and
  standard error, the files it leaves, and the error of \<open>cmd.Run()\<close> (a nonzero exit or
  a command that could not be started), if any.
\<close>

record cmd_result =
  cmdStdout :: string
  cmdStderr :: string
  cmdFiles :: "path \<rightharpoonup> string"
  cmdError :: "string option"

text \<open>
  The answers of the operating system, one for each place the program asks: a listing
  or an error for either \<open>os.ReadDir\<close>, and for every other call the error it fails with,
  if it is made to fail. A failing \<open>io.Copy\<close> has written some bytes first.
\<close>

record env =
  readSourceDir :: "string + DirEntry list"
  openFails :: "string option"
  createFails :: "string option"
  copyFails :: "(nat \<times> string) option"
  closeSourceFails :: "string option"
  closeDestFails :: "string option"
  removeFails :: "string option"
  renameFails :: "string option"
  readCurrentDir :: "string + DirEntry list"
  runCommand :: "string \<Rightarrow> string list \<Rightarrow> (path \<rightharpoonup> string) \<Rightarrow> cmd_result"
  removeArchiveFails :: "string option"

definition called :: "call \<Rightarrow> world \<Rightarrow> world" where
  "called c w = w\<lparr>calls := calls w @ [c]\<rparr>"

definition ENOENT :: string where
  "ENOENT = ''no such file or directory''"

text \<open>\<open>os.Open\<close>: fails when made to, or when there is no such file.\<close>

definition os_Open :: "string option \<Rightarrow> path \<Rightarrow> world \<Rightarrow> string option \<times> world" where
  "os_Open fails p w =
     (case fails of
        Some e \<Rightarrow> (Some e, called (Open p) w)
      | None \<Rightarrow>
          if files w p = None then (Some ENOENT, called (Open p) w)
          else (None, called (Open p) w))"

text \<open>\<open>os.Create\<close>: creates the file, or truncates it when it exists.\<close>

definition os_Create :: "string option \<Rightarrow> path \<Rightarrow> world \<Rightarrow> string option \<times> world" where
  "os_Create fails p w =
     (case fails of
        Some e \<Rightarrow> (Some e, called (Create p) w)
      | None \<Rightarrow> (None, called (Create p) (w\<lparr>files := (files w)(p \<mapsto> [])\<rparr>)))"

text \<open>
  \<open>io.Copy(dst, src)\<close>: reads what the source file holds now and writes it to the
  destination; when it fails, the first \<open>n\<close> bytes have been written.
\<close>

definition io_Copy :: "(nat \<times> string) option \<Rightarrow> path \<Rightarrow> path \<Rightarrow> world \<Rightarrow> string option \<times> world" where
  "io_Copy fails dst src w =
     (let content = (case files w src of Some c \<Rightarrow> c | None \<Rightarrow> []) in
      case fails of
        Some (n, e) \<Rightarrow> (Some e, called (Copy dst src) (w\<lparr>files := (files w)(dst \<mapsto> take n content)\<rparr>))
      | None \<Rightarrow> (None, called (Copy dst src) (w\<lparr>files := (files w)(dst \<mapsto> content)\<rparr>)))"

definition file_Close :: "string option \<Rightarrow> path \<Rightarrow> world \<Rightarrow> string option \<times> world" where
  "file_Close fails p w = (fails, called (Close p) w)"

text \<open>\<open>os.Remove\<close>: a failing call leaves the file.\<close>

definition os_Remove :: "string option \<Rightarrow> path \<Rightarrow> world \<Rightarrow> string option \<times> world" where
  "os_Remove fails p w =
     (case fails of
        Some e \<Rightarrow> (Some e, called (Remove p) w)
      | None \<Rightarrow>
          if files w p = None then (Some ENOENT, called (Remove p) w)
          else (None, called (Remove p) (w\<lparr>files := (files w)(p := None)\<rparr>)))"

text \<open>\<open>os.Rename\<close>: the file goes from the old path to the new one, replacing a file there.\<close>

definition os_Rename :: "string option \<Rightarrow> path \<Rightarrow> path \<Rightarrow> world \<Rightarrow> string option \<times> world" where
  "os_Rename fails src dst w =
     (case fails of
        Some e \<Rightarrow> (Some e, called (Rename src dst) w)
      | None \<Rightarrow>
          (case files w src of
             None \<Rightarrow> (Some ENOENT, called (Rename src dst) w)
           | Some c \<Rightarrow> (None, called (Rename src dst) (w\<lparr>files := (files w)(src := None, dst \<mapsto> c)\<rparr>))))"

text \<open>\<open>cmd.Run()\<close> with the standard output and standard error of the program.\<close>

definition cmd_Run :: "env \<Rightarrow> string \<Rightarrow> string list \<Rightarrow> world \<Rightarrow> string option \<times> world" where
  "cmd_Run E prog args w =
     (let r = runCommand E prog args (files w) in
      (cmdError r,
       called (Exec prog args)
         (w\<lparr>files := cmdFiles r, stdout := stdout w @ cmdStdout r, stderr := stderr w @ cmdStderr r\<rparr>)))"

definition Printf :: "string \<Rightarrow> world \<Rightarrow> world" where
  "Printf s w = w\<lparr>stdout := stdout w @ s\<rparr>"

definition Fprintf_Stderr :: "string \<Rightarrow> world \<Rightarrow> world" where
  "Fprintf_Stderr s w = w\<lparr>stderr := stderr w @ s\<rparr>"

definition newline :: string where
  "newline = [CHR 0x0A]"

subsection \<open>Relocating the file (\<open>moveFile\<close>, from \<open>sourcePath\<close> on)\<close>

text \<open>
  Open, create, copy, close both, remove the original, print the name. The deferred
  second \<open>Close\<close> of either file changes nothing and its error is dropped.
\<close>

definition relocate :: "env \<Rightarrow> string \<Rightarrow> FileInfo \<Rightarrow> world \<Rightarrow> error option \<times> world" where
  "relocate E sourceDir fileToMove w =
     (let sourcePath = filepath_Join sourceDir (Name fileToMove);
          destPath = filepath_Join ''.'' (Name fileToMove) in
      (case os_Open (openFails E) sourcePath w of
         (Some err, w1) \<Rightarrow> (Some (OpenError err), w1)
       | (None, w1) \<Rightarrow>
      (case os_Create (createFails E) destPath w1 of
         (Some err, w2) \<Rightarrow> (Some (CreateError err), w2)
       | (None, w2) \<Rightarrow>
      (case io_Copy (copyFails E) destPath sourcePath w2 of
         (Some err, w3) \<Rightarrow> (Some (CopyError err), w3)
       | (None, w3) \<Rightarrow>
      (case file_Close (closeSourceFails E) sourcePath w3 of
         (Some err, w4) \<Rightarrow> (Some (CloseSourceError err), w4)
       | (None, w4) \<Rightarrow>
      (case file_Close (closeDestFails E) destPath w4 of
         (Some err, w5) \<Rightarrow> (Some (CloseDestError err), w5)
       | (None, w5) \<Rightarrow>
      (case os_Remove (removeFails E) sourcePath w5 of
         (Some err, w6) \<Rightarrow> (Some (RemoveError err), w6)
       | (None, w6) \<Rightarrow> (None, Printf (Name fileToMove @ newline) w6))))))))"

definition finish :: "error option \<times> world \<Rightarrow> unit outcome \<times> world" where
  "finish r = (case r of (Some e, w) \<Rightarrow> (Err e, w) | (None, w) \<Rightarrow> (Ok (), w))"

definition moveFile ::
  "env \<Rightarrow> sorter \<Rightarrow> string \<Rightarrow> FileInfo list \<Rightarrow> 64 word \<Rightarrow> string \<Rightarrow> world \<Rightarrow> unit outcome \<times> world" where
  "moveFile E sort_Slice sourceDir regularFiles nthNewest fileFilter w =
     (case selectFile sort_Slice regularFiles nthNewest fileFilter of
        Err e \<Rightarrow> (Err e, w)
      | IndexPanic i n \<Rightarrow> (IndexPanic i n, w)
      | Ok fileToMove \<Rightarrow> finish (relocate E sourceDir fileToMove w))"

definition moveNthNewestFile ::
  "env \<Rightarrow> sorter \<Rightarrow> string \<Rightarrow> 64 word \<Rightarrow> string \<Rightarrow> world \<Rightarrow> unit outcome \<times> world" where
  "moveNthNewestFile E sort_Slice sourceDir nthNewest fileFilter w =
     (case readSourceDir E of
        Inl err \<Rightarrow> (Err (ReadSourceDirError err), w)
      | Inr entries \<Rightarrow>
          (case collect fileFilter entries [] of
             Inl e \<Rightarrow> (Err e, w)
           | Inr regularFiles \<Rightarrow> moveFile E sort_Slice sourceDir regularFiles nthNewest fileFilter w))"

subsection \<open>The archive step (\<open>unarchiveFile\<close>)\<close>

text \<open>The \<open>switch\<close> on the lowered extension: the program and its arguments, if any.\<close>

definition archive_command :: "string \<Rightarrow> string \<Rightarrow> (string \<times> string list) option" where
  "archive_command ext name =
     (if ext = ''.zip'' then Some (''unzip'', [name])
      else if ext = ''.gz'' \<or> ext = ''.tgz'' then Some (''tar'', [''-xzf'', name])
      else if ext = ''.tar'' then Some (''tar'', [''-xf'', name])
      else if ext = ''.7z'' then Some (''7z'', [''x'', name])
      else None)"

fun unarchive_loop :: "env \<Rightarrow> DirEntry list \<Rightarrow> world \<Rightarrow> error option \<times> world" where
  "unarchive_loop E [] w = (Some NoArchiveFound, w)"
| "unarchive_loop E (file # rest) w =
     (let ext = strings_ToLower (filepath_Ext (EntryName file)) in
      case archive_command ext (EntryName file) of
        None \<Rightarrow> unarchive_loop E rest w
      | Some (prog, args) \<Rightarrow>
          (case cmd_Run E prog args w of
             (Some err, w1) \<Rightarrow> (Some (UnarchiveError (EntryName file) err), w1)
           | (None, w1) \<Rightarrow>
               (case os_Remove (removeArchiveFails E) (Path ''.'' (EntryName file)) w1 of
                  (Some err, w2) \<Rightarrow> (Some (RemoveArchiveError err), w2)
                | (None, w2) \<Rightarrow>
                    (None, Printf (''Unarchived and removed: '' @ EntryName file @ newline) w2))))"

definition unarchiveFile :: "env \<Rightarrow> world \<Rightarrow> error option \<times> world" where
  "unarchiveFile E w =
     (case readCurrentDir E of
        Inl err \<Rightarrow> (Some (ReadCurrentDirError err), w)
      | Inr entries \<Rightarrow> unarchive_loop E entries w)"

subsection \<open>The command (\<open>rootCmd.Run\<close>)\<close>

text \<open>
  How the process ends: \<open>os.Exit(1)\<close> after an error, the exit status 0 when \<open>Run\<close>
  returns, or the abort of the Go runtime after a panic (what the runtime itself then
  writes to standard error is not part of the world).
\<close>

datatype ending = Exit nat | PanicAbort

definition Run ::
  "env \<Rightarrow> sorter \<Rightarrow> string \<Rightarrow> 64 word \<Rightarrow> bool \<Rightarrow> string list \<Rightarrow> world \<Rightarrow> ending \<times> world" where
  "Run E sort_Slice sourceDir nthNewest unarchive args w =
     (let fileFilter = (if 0 < length args then hd args else []) in
      case moveNthNewestFile E sort_Slice sourceDir nthNewest fileFilter w of
        (IndexPanic i n, w1) \<Rightarrow> (PanicAbort, w1)
      | (Err e, w1) \<Rightarrow> (Exit 1, Fprintf_Stderr (''Error: '' @ message e @ newline) w1)
      | (Ok u, w1) \<Rightarrow>
          if unarchive then
            (case unarchiveFile E w1 of
               (Some e, w2) \<Rightarrow> (Exit 1, Fprintf_Stderr (''Error unarchiving: '' @ message e @ newline) w2)
             | (None, w2) \<Rightarrow> (Exit 0, w2))
          else (Exit 0, w1))"

subsection \<open>The revision of \<open>src/cmd/root.go\<close>\<close>

text \<open>
  Its \<open>moveNthNewestFile\<close> collects and selects as above, then renames the file and
  prints a sentence; its \<open>Run\<close> has no archive step.
\<close>

definition relocate_root :: "env \<Rightarrow> string \<Rightarrow> FileInfo \<Rightarrow> world \<Rightarrow> error option \<times> world" where
  "relocate_root E sourceDir fileToMove w =
     (let sourcePath = filepath_Join sourceDir (Name fileToMove);
          destPath = filepath_Join ''.'' (Name fileToMove) in
      case os_Rename (renameFails E) sourcePath destPath w of
        (Some err, w1) \<Rightarrow> (Some (MoveError err), w1)
      | (None, w1) \<Rightarrow>
          (None, Printf (''Moved '' @ Name fileToMove @ '' to current directory'' @ newline) w1))"

definition moveNthNewestFile_root ::
  "env \<Rightarrow> sorter \<Rightarrow> string \<Rightarrow> 64 word \<Rightarrow> string \<Rightarrow> world \<Rightarrow> unit outcome \<times> world" where
  "moveNthNewestFile_root E sort_Slice sourceDir nthNewest fileFilter w =
     (case readSourceDir E of
        Inl err \<Rightarrow> (Err (ReadSourceDirError err), w)
      | Inr entries \<Rightarrow>
          (case collect fileFilter entries [] of
             Inl e \<Rightarrow> (Err e, w)
           | Inr regularFiles \<Rightarrow>
               (case selectFile sort_Slice regularFiles nthNewest fileFilter of
                  Err e \<Rightarrow> (Err e, w)
                | IndexPanic i n \<Rightarrow> (IndexPanic i n, w)
                | Ok fileToMove \<Rightarrow> finish (relocate_root E sourceDir fileToMove w))))"

definition Run_root ::
  "env \<Rightarrow> sorter \<Rightarrow> string \<Rightarrow> 64 word \<Rightarrow> string list \<Rightarrow> world \<Rightarrow> ending \<times> world" where
  "Run_root E sort_Slice sourceDir nthNewest args w =
     (let fileFilter = (if 0 < length args then hd args else []) in
      case moveNthNewestFile_root E sort_Slice sourceDir nthNewest fileFilter w of
        (IndexPanic i n, w1) \<Rightarrow> (PanicAbort, w1)
      | (Err e, w1) \<Rightarrow> (Exit 1, Fprintf_Stderr (''Error: '' @ message e @ newline) w1)
      | (Ok u, w1) \<Rightarrow> (Exit 0, w1))"

subsection \<open>Two sorters that keep the promise of \<open>sort.Slice\<close>\<close>

text \<open>
  Which order \<open>sort.Slice\<close> gives to elements that compare equal depends on the
  algorithm of the Go release in use; the program can rely on the documented promise
  only. Two sorters that keep it: insertion sort, which keeps candidates of one
  modification time in the order of the listing, and the same sort run on the reversed
  slice, which does not.
\<close>

fun insert_before :: "('a \<Rightarrow> 'a \<Rightarrow> bool) \<Rightarrow> 'a \<Rightarrow> 'a list \<Rightarrow> 'a list" where
  "insert_before lessf x [] = [x]"
| "insert_before lessf x (y # ys) =
     (if lessf y x then y # insert_before lessf x ys else x # y # ys)"

definition insertion_sort :: "('a \<Rightarrow> 'a \<Rightarrow> bool) \<Rightarrow> 'a list \<Rightarrow> 'a list" where
  "insertion_sort lessf xs = foldr (insert_before lessf) xs []"


subsection \<open>The words of the specification\<close>

text \<open>
  A name contains the filter case-insensitively: some stretch of the name is the
  filter, up to the case of the letters.
\<close>

definition contains_fold :: "string \<Rightarrow> string \<Rightarrow> bool" where
  "contains_fold name flt \<longleftrightarrow>
     (\<exists>part. sublist part name \<and> strings_ToLower part = strings_ToLower flt)"

text \<open>A candidate: an entry that is no directory and whose name contains the filter.\<close>

definition matching :: "string \<Rightarrow> DirEntry \<Rightarrow> bool" where
  "matching flt e \<longleftrightarrow> \<not> IsDir e \<and> contains_fold (EntryName e) flt"

text \<open>The table of the archive types: the extension, the tool and its options.\<close>

definition spec_table :: "(string \<times> string \<times> string list) list" where
  "spec_table =
     [(''.zip'', ''unzip'', []),
      (''.gz'', ''tar'', [''-xzf'']),
      (''.tgz'', ''tar'', [''-xzf'']),
      (''.tar'', ''tar'', [''-xf'']),
      (''.7z'', ''7z'', [''x''])]"

definition spec_command :: "string \<Rightarrow> (string \<times> string list) option" where
  "spec_command name =
     (case map_of spec_table (strings_ToLower (filepath_Ext name)) of
        None \<Rightarrow> None
      | Some (prog, opts) \<Rightarrow> Some (prog, opts @ [name]))"

definition is_archive :: "DirEntry \<Rightarrow> bool" where
  "is_archive file \<longleftrightarrow> spec_command (EntryName file) \<noteq> None"

text \<open>The steps of a relocation in their order, and the step an error names.\<close>

definition step_calls :: "path \<Rightarrow> path \<Rightarrow> call list" where
  "step_calls src dst = [Open src, Create dst, Copy dst src, Close src, Close dst, Remove src]"

fun failing_step :: "error \<Rightarrow> nat option" where
  "failing_step (OpenError m) = Some 1"
| "failing_step (CreateError m) = Some 2"
| "failing_step (CopyError m) = Some 3"
| "failing_step (CloseSourceError m) = Some 4"
| "failing_step (CloseDestError m) = Some 5"
| "failing_step (RemoveError m) = Some 6"
| "failing_step e = None"

subsection \<open>Example directories and worlds\<close>

definition a_txt :: FileInfo where
  "a_txt = \<lparr>Name = ''a.txt'', ModTime = 100\<rparr>"

definition b_log :: FileInfo where
  "b_log = \<lparr>Name = ''b.log'', ModTime = 300\<rparr>"

definition c_txt :: FileInfo where
  "c_txt = \<lparr>Name = ''c.txt'', ModTime = 200\<rparr>"

definition file_entry :: "FileInfo \<Rightarrow> DirEntry" where
  "file_entry f = \<lparr>EntryName = Name f, IsDir = False, Stat = Inr (ModTime f)\<rparr>"


text \<open>The directory of the specification's example: \<open>a.txt\<close> oldest, \<open>b.log\<close> newest.\<close>

definition example_dir :: "DirEntry list" where
  "example_dir = [file_entry a_txt, file_entry b_log, file_entry c_txt]"




text \<open>An operating system where no call fails and the external command does nothing.\<close>

definition no_faults :: env where
  "no_faults =
     \<lparr>readSourceDir = Inr [], openFails = None, createFails = None, copyFails = None,
      closeSourceFails = None, closeDestFails = None, removeFails = None, renameFails = None,
      readCurrentDir = Inr [],
      runCommand = (\<lambda>prog args fs. \<lparr>cmdStdout = [], cmdStderr = [], cmdFiles = fs, cmdError = None\<rparr>),
      removeArchiveFails = None\<rparr>"

text \<open>A world with one file and nothing printed yet.\<close>

definition world_with :: "path \<Rightarrow> string \<Rightarrow> world" where
  "world_with p c = \<lparr>files = [p \<mapsto> c], stdout = [], stderr = [], calls = []\<rparr>"


definition downloads :: string where
  "downloads = ''/home/u/Downloads''"

definition data_zip :: FileInfo where
  "data_zip = \<lparr>Name = ''data.zip'', ModTime = 700\<rparr>"

text \<open>
  A download directory that holds \<open>data.zip\<close>; after the move the current directory
  lists \<open>data.zip\<close> and \<open>notes.txt\<close>, and \<open>unzip\<close> prints one line.
\<close>

definition zip_env :: env where
  "zip_env =
     no_faults
       \<lparr>readSourceDir := Inr [file_entry data_zip],
        readCurrentDir := Inr [file_entry data_zip, file_entry \<lparr>Name = ''notes.txt'', ModTime = 1\<rparr>],
        runCommand := (\<lambda>prog args fs.
           \<lparr>cmdStdout = ''Archive: data.zip'' @ newline, cmdStderr = [], cmdFiles = fs, cmdError = None\<rparr>)\<rparr>"

text \<open>The same, but the archive cannot be removed; and a world with the archive in place.\<close>

definition locked_zip_env :: env where
  "locked_zip_env = zip_env\<lparr>removeArchiveFails := Some ''operation not permitted''\<rparr>"

definition unpack_world :: world where
  "unpack_world = world_with (Path ''.'' ''data.zip'') ''PK''"

definition zip_world :: world where
  "zip_world = world_with (Path downloads ''data.zip'') ''PK''"

section \<open>Properties\<close>

subsection \<open>The sorters\<close>

lemmas os_defs =
  os_Open_def os_Create_def io_Copy_def file_Close_def os_Remove_def os_Rename_def
  called_def Printf_def filepath_Join_def

lemma mset_insert_before: "mset (insert_before lessf x ys) = add_mset x (mset ys)"
  by (induction ys) auto

lemma mset_insertion_sort: "mset (insertion_sort lessf xs) = mset xs"
  by (induction xs) (auto simp: insertion_sort_def mset_insert_before)

lemma set_insert_before: "set (insert_before lessf x ys) = insert x (set ys)"
  by (induction ys) auto

lemma not_newer_iff: "(\<not> newer b a) = (ModTime b \<le> ModTime a)"
  by (auto simp: newer_def After_def)

lemma sorted_insert_before:
  "sorted_wrt (\<lambda>a b. \<not> newer b a) ys \<Longrightarrow>
   sorted_wrt (\<lambda>a b. \<not> newer b a) (insert_before newer x ys)"
  by (induction ys) (auto simp: set_insert_before newer_def After_def)

lemma sorted_insertion_sort: "sorted_wrt (\<lambda>a b. \<not> newer b a) (insertion_sort newer xs)"
  by (induction xs) (auto simp: insertion_sort_def sorted_insert_before)

lemma insertion_sort_spec: "sort_Slice_spec insertion_sort newer"
  by (simp add: sort_Slice_spec_def mset_insertion_sort sorted_insertion_sort)


lemma spec_length: "sort_Slice_spec S lessf \<Longrightarrow> length (S lessf xs) = length xs"
  by (metis sort_Slice_spec_def size_mset)

lemma spec_mset: "sort_Slice_spec S lessf \<Longrightarrow> mset (S lessf xs) = mset xs"
  by (simp add: sort_Slice_spec_def)

lemma spec_sorted:
  "sort_Slice_spec S newer \<Longrightarrow> sorted_wrt (\<lambda>a b. \<not> newer b a) (S newer xs)"
  by (simp add: sort_Slice_spec_def)

text \<open>
  A list sorted by modification time, newest first, has its times in one order only;
  when the times are pairwise distinct the list itself is determined.
\<close>

lemma sorted_newer_times:
  "sorted_wrt (\<lambda>a b. \<not> newer b a) xs = sorted (rev (map ModTime xs))"
  by (simp add: not_newer_iff sorted_wrt_rev sorted_wrt_map)

lemma sorted_times_unique:
  assumes "mset xs = mset ys"
    and "sorted_wrt (\<lambda>a b. \<not> newer b a) xs"
    and "sorted_wrt (\<lambda>a b. \<not> newer b a) ys"
  shows "map ModTime xs = map ModTime ys"
proof -
  have m: "mset (rev (map ModTime xs)) = mset (rev (map ModTime ys))"
    using assms(1) by (metis mset_map mset_rev)
  have "sort (rev (map ModTime ys)) = rev (map ModTime xs)"
    using m assms(2) by (intro properties_for_sort) (simp_all add: sorted_newer_times)
  moreover have "sort (rev (map ModTime ys)) = rev (map ModTime ys)"
    using assms(3) by (intro properties_for_sort) (simp_all add: sorted_newer_times)
  ultimately show ?thesis by simp
qed

lemma sorted_newer_unique:
  assumes "mset xs = mset ys"
    and "sorted_wrt (\<lambda>a b. \<not> newer b a) xs"
    and "sorted_wrt (\<lambda>a b. \<not> newer b a) ys"
    and "distinct (map ModTime xs)"
  shows "xs = ys"
proof -
  have t: "map ModTime xs = map ModTime ys"
    using assms(1-3) by (rule sorted_times_unique)
  have s: "set ys = set xs"
    using assms(1) by (metis set_mset_mset)
  have "inj_on ModTime (set xs \<union> set ys)"
    using assms(4) s by (simp add: distinct_map)
  then show ?thesis
    using t by (simp add: inj_on_map_eq_map)
qed

lemma spec_distinct_unique:
  assumes "sort_Slice_spec S newer" and "distinct (map ModTime xs)"
  shows "S newer xs = insertion_sort newer xs"
proof -
  have d: "distinct (map ModTime (S newer xs))"
    using assms by (metis spec_mset distinct_map mset_eq_setD mset_map distinct_count_atmost_1 set_mset_mset mset_eq_imp_distinct_iff)
  show ?thesis
    by (rule sorted_newer_unique)
      (simp_all add: spec_mset [OF assms(1)] spec_sorted [OF assms(1)] mset_insertion_sort
        sorted_insertion_sort d)
qed

subsection \<open>The rank as a 64-bit integer\<close>

lemma sint_minus_one:
  fixes n :: "64 word"
  assumes "sint n \<noteq> - (2 ^ 63)"
  shows "sint (n - 1) = sint n - 1"
proof -
  have "- (2 ^ 63) \<le> sint n" "sint n < 2 ^ 63"
    using sint_ge [of n] sint_lt [of n] by simp_all
  then have "- (2 ^ 63) \<le> sint n - 1" "sint n - 1 < 2 ^ 63"
    using assms by simp_all
  then show ?thesis
    by (simp add: sint_word_ariths signed_take_bit_int_eq_self)
qed

lemma sint_minus_one_wrap:
  fixes n :: "64 word"
  assumes "sint n = - (2 ^ 63)"
  shows "sint (n - 1) = 2 ^ 63 - 1"
proof -
  have "n = word_of_int (sint n)" by simp
  then have "n = word_of_int (- (2 ^ 63))" using assms by simp
  then show ?thesis by simp
qed

subsection \<open>Selection\<close>

lemma selectFile_empty:
  "selectFile S [] n flt = (if flt \<noteq> [] then Err (NoFilesMatching flt) else Err NoFiles)"
  by (simp add: selectFile_def)

lemma selectFile_too_large:
  assumes "sort_Slice_spec S newer" and "rf \<noteq> []" and "int (length rf) < sint n"
  shows "selectFile S rf n flt = Err (OutOfRange (sint n) (length rf))"
  using assms by (simp add: selectFile_def spec_length Let_def)

lemma selectFile_in_range:
  assumes "sort_Slice_spec S newer" and "rf \<noteq> []"
    and "1 \<le> sint n" and "sint n \<le> int (length rf)"
  shows "selectFile S rf n flt = Ok (S newer rf ! (nat (sint n) - 1))"
proof -
  have "sint n \<noteq> - (2 ^ 63)" using assms(3) by simp
  then have i: "sint (n - 1) = sint n - 1" by (rule sint_minus_one)
  have "nat (sint n - 1) = nat (sint n) - 1" by simp
  then show ?thesis
    using assms i by (simp add: selectFile_def spec_length Let_def)
qed

lemma index_out_of_range:
  fixes n :: "64 word"
  assumes "sint n \<le> 0" and "k < 2 ^ 63"
  shows "sint (n - 1) < 0 \<or> int k \<le> sint (n - 1)"
proof (cases "sint n = - (2 ^ 63)")
  case True
  then have w: "sint (n - 1) = 2 ^ 63 - 1" by (rule sint_minus_one_wrap)
  have "int k < int (2 ^ 63)" using assms(2) by (simp only: of_nat_less_iff)
  then have "int k < 2 ^ 63" by simp
  then show ?thesis using w by linarith
next
  case False
  then have "sint (n - 1) = sint n - 1" by (rule sint_minus_one)
  then show ?thesis using assms(1) by simp
qed

lemma selectFile_nonpositive:
  assumes "sort_Slice_spec S newer" and "rf \<noteq> []"
    and "sint n \<le> 0" and "length rf < 2 ^ 63"
  shows "selectFile S rf n flt = IndexPanic (sint (n - 1)) (length rf)"
proof -
  have "\<not> int (length rf) < sint n" using assms(3) by simp
  then show ?thesis
    using assms(1,2) index_out_of_range [OF assms(3,4)]
    by (simp add: selectFile_def spec_length Let_def)
qed

lemma example_all: "collect [] example_dir [] = Inr [a_txt, b_log, c_txt]"
  by (simp add: example_dir_def file_entry_def Info_def a_txt_def b_log_def c_txt_def)

lemma example_txt: "collect ''txt'' example_dir [] = Inr [a_txt, c_txt]"
  by (simp add: example_dir_def file_entry_def Info_def a_txt_def b_log_def c_txt_def
      strings_ToLower_def lower_byte_def)

lemma example_all_sorted: "insertion_sort newer [a_txt, b_log, c_txt] = [b_log, c_txt, a_txt]"
  by (simp add: insertion_sort_def newer_def After_def a_txt_def b_log_def c_txt_def)

lemma example_txt_sorted: "insertion_sort newer [a_txt, c_txt] = [c_txt, a_txt]"
  by (simp add: insertion_sort_def newer_def After_def a_txt_def c_txt_def)

lemma example_all_any_sort:
  "sort_Slice_spec S newer \<Longrightarrow> S newer [a_txt, b_log, c_txt] = [b_log, c_txt, a_txt]"
  using spec_distinct_unique [of S "[a_txt, b_log, c_txt]"]
  by (simp add: example_all_sorted) (simp add: a_txt_def b_log_def c_txt_def)

lemma example_txt_any_sort:
  "sort_Slice_spec S newer \<Longrightarrow> S newer [a_txt, c_txt] = [c_txt, a_txt]"
  using spec_distinct_unique [of S "[a_txt, c_txt]"]
  by (simp add: example_txt_sorted) (simp add: a_txt_def c_txt_def)

subsection \<open>Claims about selection\<close>

text \<open>
  C1. With any sorter that keeps the promise of \<open>sort.Slice\<close>, a non-empty candidate
  list and a rank between 1 and the number of candidates, the file selected is the one
  at index \<open>rank - 1\<close> of the candidates in descending order of modification time, and
  \<open>moveFile\<close> relocates that file. In the directory of \<open>a.txt\<close> (oldest), \<open>b.log\<close>
  (newest) and \<open>c.txt\<close>, rank 2 with no filter selects \<open>c.txt\<close>, and so does rank 1 with
  the filter \<open>txt\<close>.
\<close>

theorem selector_returns_rank:
  assumes "sort_Slice_spec sort_Slice newer"
  shows
    "(regularFiles \<noteq> [] \<and> 1 \<le> sint nthNewest \<and> sint nthNewest \<le> int (length regularFiles) \<longrightarrow>
        selectFile sort_Slice regularFiles nthNewest fileFilter =
          Ok (sort_Slice newer regularFiles ! (nat (sint nthNewest) - 1)) \<and>
        mset (sort_Slice newer regularFiles) = mset regularFiles \<and>
        sorted_wrt (\<lambda>a b. ModTime b \<le> ModTime a) (sort_Slice newer regularFiles) \<and>
        moveFile E sort_Slice sourceDir regularFiles nthNewest fileFilter w =
          finish (relocate E sourceDir (sort_Slice newer regularFiles ! (nat (sint nthNewest) - 1)) w)) \<and>
     collect [] example_dir [] = Inr [a_txt, b_log, c_txt] \<and>
     selectFile sort_Slice [a_txt, b_log, c_txt] 2 [] = Ok c_txt \<and>
     collect ''txt'' example_dir [] = Inr [a_txt, c_txt] \<and>
     selectFile sort_Slice [a_txt, c_txt] 1 ''txt'' = Ok c_txt \<and>
     (readSourceDir E = Inr example_dir \<longrightarrow>
        moveNthNewestFile E sort_Slice sourceDir 2 [] w = finish (relocate E sourceDir c_txt w) \<and>
        moveNthNewestFile E sort_Slice sourceDir 1 ''txt'' w = finish (relocate E sourceDir c_txt w))"
proof -
  have general: "selectFile sort_Slice regularFiles nthNewest fileFilter =
          Ok (sort_Slice newer regularFiles ! (nat (sint nthNewest) - 1)) \<and>
        mset (sort_Slice newer regularFiles) = mset regularFiles \<and>
        sorted_wrt (\<lambda>a b. ModTime b \<le> ModTime a) (sort_Slice newer regularFiles) \<and>
        moveFile E sort_Slice sourceDir regularFiles nthNewest fileFilter w =
          finish (relocate E sourceDir (sort_Slice newer regularFiles ! (nat (sint nthNewest) - 1)) w)"
    if "regularFiles \<noteq> []" "1 \<le> sint nthNewest" "sint nthNewest \<le> int (length regularFiles)"
  proof -
    have s: "selectFile sort_Slice regularFiles nthNewest fileFilter =
          Ok (sort_Slice newer regularFiles ! (nat (sint nthNewest) - 1))"
      using assms that by (rule selectFile_in_range)
    have "sorted_wrt (\<lambda>a b. ModTime b \<le> ModTime a) (sort_Slice newer regularFiles)"
      using spec_sorted [OF assms, of regularFiles] by (simp add: not_newer_iff)
    then show ?thesis
      using s by (simp add: spec_mset [OF assms] moveFile_def)
  qed
  have two: "selectFile sort_Slice [a_txt, b_log, c_txt] 2 [] = Ok c_txt"
    using selectFile_in_range [OF assms, of "[a_txt, b_log, c_txt]" 2 "[]"]
    by (simp add: example_all_any_sort [OF assms])
  have one: "selectFile sort_Slice [a_txt, c_txt] 1 ''txt'' = Ok c_txt"
    using selectFile_in_range [OF assms, of "[a_txt, c_txt]" 1 "''txt''"]
    by (simp add: example_txt_any_sort [OF assms])
  have run: "moveNthNewestFile E sort_Slice sourceDir 2 [] w = finish (relocate E sourceDir c_txt w) \<and>
        moveNthNewestFile E sort_Slice sourceDir 1 ''txt'' w = finish (relocate E sourceDir c_txt w)"
    if "readSourceDir E = Inr example_dir"
    using that by (simp add: moveNthNewestFile_def moveFile_def example_all example_txt two one)
  show ?thesis
    using general two one run by (simp add: example_all example_txt)
qed

theorem selector_returns_rank_witness:
  "selectFile insertion_sort [a_txt, b_log, c_txt] 3 [] = Ok a_txt \<and>
   selectFile insertion_sort [a_txt, b_log, c_txt] 2 [] = Ok c_txt \<and>
   selectFile insertion_sort [a_txt, c_txt] 1 ''txt'' = Ok c_txt \<and>
   moveNthNewestFile (no_faults\<lparr>readSourceDir := Inr example_dir\<rparr>) insertion_sort downloads 2 []
       (world_with (Path downloads ''c.txt'') ''third'') =
     finish (relocate (no_faults\<lparr>readSourceDir := Inr example_dir\<rparr>) downloads c_txt
       (world_with (Path downloads ''c.txt'') ''third''))"
  using selector_returns_rank [OF insertion_sort_spec, of "[a_txt, b_log, c_txt]" 3 "[]"
      "no_faults\<lparr>readSourceDir := Inr example_dir\<rparr>" downloads
      "world_with (Path downloads ''c.txt'') ''third''"]
  by (simp add: example_all_sorted)




lemma relocate_error_kind:
  assumes "relocate E dir f w = (Some e, w')"
  shows "\<exists>k. failing_step e = Some k \<and>
           calls w' = calls w @ take k (step_calls (filepath_Join dir (Name f)) (filepath_Join ''.'' (Name f)))"
  using assms
  by (auto simp: relocate_def os_defs Let_def step_calls_def split: option.splits if_splits prod.splits)

lemma finish_not_selection_error:
  assumes "fst (finish (relocate E dir f w)) = Err e"
  shows "e \<noteq> NoFiles \<and> e \<noteq> NoFilesMatching x \<and> e \<noteq> OutOfRange k m"
proof -
  obtain r w' where r: "relocate E dir f w = (r, w')" by (cases "relocate E dir f w")
  then have "r = Some e" using assms by (cases r) (simp_all add: finish_def)
  then have "\<exists>k. failing_step e = Some k" using r relocate_error_kind by blast
  then show ?thesis by auto
qed

lemma selectFile_nonempty_cases:
  assumes "sort_Slice_spec S newer" and "rf \<noteq> []" and "\<not> int (length rf) < sint n"
  shows "(\<exists>i k. selectFile S rf n flt = IndexPanic i k) \<or> (\<exists>f. selectFile S rf n flt = Ok f)"
  using assms by (simp add: selectFile_def spec_length Let_def)

text \<open>
  C4, as the code has it. With no candidate left the first check answers, whatever the
  rank: rank 1 exceeds the candidate count 0, and the error is the one for no files, not
  the one for a rank out of range.
\<close>

theorem out_of_range_counterexample:
  "int (length ([] :: FileInfo list)) < sint (1 :: 64 word) \<and>
   selectFile insertion_sort [] 1 [] = Err NoFiles \<and>
   moveFile no_faults insertion_sort downloads [] 1 [] zip_world = (Err NoFiles, zip_world)"
  by (simp add: selectFile_def moveFile_def)

text \<open>
  C4, amended. \<open>moveFile\<close> fails with the error for no files exactly when no candidate
  is left, with one message for an empty filter and another for a filter; it fails with
  the error for a rank out of range exactly when at least one candidate is left and the
  rank exceeds their number, and then nothing is moved: the rank is never clamped.
\<close>

theorem selection_errors:
  assumes "sort_Slice_spec sort_Slice newer"
  shows
    "(fst (moveFile E sort_Slice sourceDir regularFiles nthNewest fileFilter w) = Err NoFiles
        \<longleftrightarrow> regularFiles = [] \<and> fileFilter = []) \<and>
     ((\<exists>x. fst (moveFile E sort_Slice sourceDir regularFiles nthNewest fileFilter w) = Err (NoFilesMatching x))
        \<longleftrightarrow> regularFiles = [] \<and> fileFilter \<noteq> []) \<and>
     (regularFiles = [] \<and> fileFilter \<noteq> [] \<longrightarrow>
        moveFile E sort_Slice sourceDir regularFiles nthNewest fileFilter w = (Err (NoFilesMatching fileFilter), w)) \<and>
     ((\<exists>k m. fst (moveFile E sort_Slice sourceDir regularFiles nthNewest fileFilter w) = Err (OutOfRange k m))
        \<longleftrightarrow> regularFiles \<noteq> [] \<and> int (length regularFiles) < sint nthNewest) \<and>
     (regularFiles \<noteq> [] \<and> int (length regularFiles) < sint nthNewest \<longrightarrow>
        moveFile E sort_Slice sourceDir regularFiles nthNewest fileFilter w =
          (Err (OutOfRange (sint nthNewest) (length regularFiles)), w)) \<and>
     message NoFiles \<noteq> message (NoFilesMatching fileFilter)"
proof (cases "regularFiles = []")
  case True
  then show ?thesis by (auto simp: moveFile_def selectFile_empty)
next
  case nonempty: False
  show ?thesis
  proof (cases "int (length regularFiles) < sint nthNewest")
    case True
    then show ?thesis
      using nonempty selectFile_too_large [OF assms nonempty True, of fileFilter]
      by (simp add: moveFile_def)
  next
    case False
    from selectFile_nonempty_cases [OF assms nonempty False, of fileFilter]
    show ?thesis
    proof
      assume "\<exists>i k. selectFile sort_Slice regularFiles nthNewest fileFilter = IndexPanic i k"
      then show ?thesis using nonempty False by (auto simp: moveFile_def)
    next
      assume "\<exists>f. selectFile sort_Slice regularFiles nthNewest fileFilter = Ok f"
      then obtain f where f: "selectFile sort_Slice regularFiles nthNewest fileFilter = Ok f" ..
      have "fst (moveFile E sort_Slice sourceDir regularFiles nthNewest fileFilter w) \<noteq> Err NoFiles"
        and "\<And>x. fst (moveFile E sort_Slice sourceDir regularFiles nthNewest fileFilter w) \<noteq> Err (NoFilesMatching x)"
        and "\<And>k m. fst (moveFile E sort_Slice sourceDir regularFiles nthNewest fileFilter w) \<noteq> Err (OutOfRange k m)"
        using finish_not_selection_error [of E sourceDir f w] by (auto simp: moveFile_def f)
      then show ?thesis using nonempty False by simp
    qed
  qed
qed

theorem selection_errors_witness:
  "moveFile no_faults insertion_sort downloads [a_txt, b_log, c_txt] 4 [] zip_world =
     (Err (OutOfRange 4 3), zip_world) \<and>
   fst (moveFile no_faults insertion_sort downloads [] 4 ''pdf'' zip_world) = Err (NoFilesMatching ''pdf'') \<and>
   message NoFiles \<noteq> message (NoFilesMatching ''pdf'')"
  using selection_errors [OF insertion_sort_spec, of no_faults downloads "[a_txt, b_log, c_txt]" 4 "[]" zip_world]
    selection_errors [OF insertion_sort_spec, of no_faults downloads "[]" 4 "''pdf''" zip_world]
  by simp

text \<open>
  C10. With a non-empty candidate list and a rank that is zero or negative, the only
  guard (rank greater than the number of candidates) does not fire, no error for a rank
  out of range is returned, and the slice is indexed at \<open>rank - 1\<close>, which is outside it:
  the call panics, in \<open>moveFile\<close> and in the \<open>moveNthNewestFile\<close> of either revision,
  and nothing has been touched. For the least 64-bit rank \<open>rank - 1\<close> wraps to the
  greatest index, which is outside a slice as well.
\<close>

theorem nonpositive_rank_panics:
  assumes "sort_Slice_spec sort_Slice newer"
    and "regularFiles \<noteq> []"
    and "sint nthNewest \<le> 0"
    and "length regularFiles < 2 ^ 63"
  shows
    "selectFile sort_Slice regularFiles nthNewest fileFilter =
       IndexPanic (sint (nthNewest - 1)) (length regularFiles) \<and>
     (sint (nthNewest - 1) < 0 \<or> int (length regularFiles) \<le> sint (nthNewest - 1)) \<and>
     (sint nthNewest \<noteq> - (2 ^ 63) \<longrightarrow> sint (nthNewest - 1) = sint nthNewest - 1) \<and>
     moveFile E sort_Slice sourceDir regularFiles nthNewest fileFilter w =
       (IndexPanic (sint (nthNewest - 1)) (length regularFiles), w) \<and>
     (readSourceDir E = Inr entries \<and> collect fileFilter entries [] = Inr regularFiles \<longrightarrow>
        moveNthNewestFile E sort_Slice sourceDir nthNewest fileFilter w =
          (IndexPanic (sint (nthNewest - 1)) (length regularFiles), w) \<and>
        moveNthNewestFile_root E sort_Slice sourceDir nthNewest fileFilter w =
          (IndexPanic (sint (nthNewest - 1)) (length regularFiles), w))"
proof -
  have s: "selectFile sort_Slice regularFiles nthNewest fileFilter =
       IndexPanic (sint (nthNewest - 1)) (length regularFiles)"
    using assms by (rule selectFile_nonpositive)
  show ?thesis
    using s index_out_of_range [OF assms(3,4)] sint_minus_one [of nthNewest]
    by (simp add: moveFile_def moveNthNewestFile_def moveNthNewestFile_root_def)
qed

theorem nonpositive_rank_panics_witness:
  "selectFile insertion_sort [a_txt, b_log, c_txt] 0 [] = IndexPanic (- 1) 3 \<and>
   moveNthNewestFile (no_faults\<lparr>readSourceDir := Inr example_dir\<rparr>) insertion_sort downloads 0 [] zip_world =
     (IndexPanic (- 1) 3, zip_world) \<and>
   moveNthNewestFile_root (no_faults\<lparr>readSourceDir := Inr example_dir\<rparr>) insertion_sort downloads 0 [] zip_world =
     (IndexPanic (- 1) 3, zip_world)"
  using nonpositive_rank_panics [OF insertion_sort_spec, of "[a_txt, b_log, c_txt]" 0 "[]"
      "no_faults\<lparr>readSourceDir := Inr example_dir\<rparr>" downloads zip_world example_dir]
  by (simp add: example_all)

subsection \<open>Collecting the candidates\<close>











subsection \<open>Relocation\<close>


lemma relocate_success_output:
  assumes "relocate E dir f w = (None, w')"
  shows "stdout w' = stdout w @ Name f @ newline" and "stderr w' = stderr w"
  using assms
  by (auto simp: relocate_def os_defs Let_def split: option.splits if_splits prod.splits)



lemma relocate_failure_files:
  assumes "relocate E dir f w = (Some e, w')"
  shows "dom (files w) \<subseteq> dom (files w')"
    and "stdout w' = stdout w"
    and "stderr w' = stderr w"
    and "\<forall>p. p \<noteq> filepath_Join ''.'' (Name f) \<longrightarrow> files w' p = files w p"
  using assms
  by (auto simp: relocate_def os_defs Let_def split: option.splits if_splits prod.splits)



lemma relocate_root_output:
  assumes "relocate_root E dir f w = (None, w')"
  shows "stdout w' = stdout w @ ''Moved '' @ Name f @ '' to current directory'' @ newline"
    and "stderr w' = stderr w"
  using assms
  by (auto simp: relocate_root_def os_defs Let_def split: option.splits if_splits prod.splits)

lemma relocate_root_failure:
  assumes "relocate_root E dir f w = (Some e, w')"
  shows "stdout w' = stdout w" and "stderr w' = stderr w"
  using assms
  by (auto simp: relocate_root_def os_defs Let_def split: option.splits if_splits prod.splits)







subsection \<open>The archive step\<close>

lemma archive_command_table:
  "archive_command (strings_ToLower (filepath_Ext name)) name = spec_command name"
  by (simp add: archive_command_def spec_command_def spec_table_def)

lemma not_is_archive: "\<not> is_archive file \<Longrightarrow> spec_command (EntryName file) = None"
  by (cases "spec_command (EntryName file)") (simp_all add: is_archive_def)

lemma unarchive_loop_none:
  "find is_archive es = None \<Longrightarrow> unarchive_loop E es w = (Some NoArchiveFound, w)"
proof (induction es)
  case Nil
  then show ?case by simp
next
  case (Cons a es)
  then have "\<not> is_archive a" and "find is_archive es = None"
    by (simp_all split: if_splits)
  then show ?case using Cons.IH by (simp add: archive_command_table not_is_archive)
qed

lemma unarchive_loop_first:
  assumes "find is_archive es = Some file" and "spec_command (EntryName file) = Some (prog, args)"
  shows "unarchive_loop E es w =
     (case cmd_Run E prog args w of
        (Some err, w1) \<Rightarrow> (Some (UnarchiveError (EntryName file) err), w1)
      | (None, w1) \<Rightarrow>
          (case os_Remove (removeArchiveFails E) (Path ''.'' (EntryName file)) w1 of
             (Some err, w2) \<Rightarrow> (Some (RemoveArchiveError err), w2)
           | (None, w2) \<Rightarrow>
               (None, Printf (''Unarchived and removed: '' @ EntryName file @ newline) w2)))"
  using assms(1)
proof (induction es)
  case Nil
  then show ?case by simp
next
  case (Cons a es)
  show ?case
  proof (cases "is_archive a")
    case True
    then have "a = file" using Cons.prems by simp
    then show ?thesis using assms(2) by (auto simp: archive_command_table)
  next
    case False
    then have "spec_command (EntryName a) = None" by (simp add: not_is_archive)
    moreover have "find is_archive es = Some file" using False Cons.prems by simp
    ultimately show ?thesis using Cons.IH by (simp add: archive_command_table)
  qed
qed

lemma unarchive_calls:
  assumes "find is_archive es = Some file" and "spec_command (EntryName file) = Some (prog, args)"
  shows "calls (snd (unarchive_loop E es w)) =
           calls w @ (if cmdError (runCommand E prog args (files w)) = None
                      then [Exec prog args, Remove (Path ''.'' (EntryName file))]
                      else [Exec prog args])"
    and "fst (unarchive_loop E es w) \<noteq> Some NoArchiveFound"
  by (simp_all add: unarchive_loop_first [OF assms] cmd_Run_def os_defs Let_def split: option.splits)

lemma unarchive_result:
  assumes "find is_archive es = Some file" and "spec_command (EntryName file) = Some (prog, args)"
    and "r = runCommand E prog args (files w)" and "unarchive_loop E es w = (res, w')"
  shows "\<forall>err. cmdError r = Some err \<longrightarrow>
            res = Some (UnarchiveError (EntryName file) err) \<and> files w' = cmdFiles r \<and>
            stdout w' = stdout w @ cmdStdout r"
    and "cmdError r = None \<and> removeArchiveFails E = None \<and> cmdFiles r (Path ''.'' (EntryName file)) \<noteq> None \<longrightarrow>
            res = None \<and> files w' = (cmdFiles r)(Path ''.'' (EntryName file) := None) \<and>
            stdout w' = stdout w @ cmdStdout r @ ''Unarchived and removed: '' @ EntryName file @ newline"
    and "cmdError r = None \<and> (removeArchiveFails E \<noteq> None \<or> cmdFiles r (Path ''.'' (EntryName file)) = None) \<longrightarrow>
            (\<exists>err. res = Some (RemoveArchiveError err)) \<and> files w' = cmdFiles r \<and>
            stdout w' = stdout w @ cmdStdout r"
  using assms(3,4)
  by (auto simp: unarchive_loop_first [OF assms(1,2)] cmd_Run_def os_defs Let_def
      split: option.splits if_splits)

lemma find_first:
  "\<forall>e\<in>set before. \<not> P e \<Longrightarrow> P x \<Longrightarrow> find P (before @ x # rest) = Some x"
  by (induction before) simp_all

lemma is_archive_command: "is_archive file \<Longrightarrow> \<exists>prog args. spec_command (EntryName file) = Some (prog, args)"
  by (cases "spec_command (EntryName file)") (auto simp: is_archive_def)




text \<open>
  C8, as the code has it. The command exits successfully, the removal of the archive
  fails: the archive is still there, an error is returned and no success is reported.
\<close>

theorem remove_failure_counterexample:
  "cmdError (runCommand locked_zip_env ''unzip'' [''data.zip''] (files unpack_world)) = None \<and>
   fst (unarchiveFile locked_zip_env unpack_world) = Some (RemoveArchiveError ''operation not permitted'') \<and>
   files (snd (unarchiveFile locked_zip_env unpack_world)) (Path ''.'' ''data.zip'') = Some ''PK'' \<and>
   stdout (snd (unarchiveFile locked_zip_env unpack_world)) = ''Archive: data.zip'' @ newline \<and>
   calls (snd (unarchiveFile locked_zip_env unpack_world)) =
     [Exec ''unzip'' [''data.zip''], Remove (Path ''.'' ''data.zip'')]"
  by (simp add: unarchiveFile_def locked_zip_env_def zip_env_def no_faults_def unpack_world_def
      world_with_def file_entry_def data_zip_def archive_command_def strings_ToLower_def
      filepath_Ext_def lower_byte_def cmd_Run_def os_defs Let_def)

text \<open>
  C8, amended. For the first entry with an extension of the table, \<open>unarchiveFile\<close> calls
  the removal of the archive if and only if the command exited successfully. When the
  command fails, the error wraps the name and the error of the process and the archive
  is not touched by the program. When the command succeeds and the removal succeeds,
  the archive is gone and the success line is printed; when the removal fails, the error
  of the removal is returned, the archive is left and no success is printed. When no
  entry has an extension of the table, the error for no archive is returned and nothing
  has changed.
\<close>

theorem archive_removed_after_success:
  assumes "readCurrentDir E = Inr entries"
  shows
    "((\<forall>e\<in>set entries. \<not> is_archive e) \<longrightarrow> unarchiveFile E w = (Some NoArchiveFound, w)) \<and>
     (entries = before @ file # rest \<and> (\<forall>e\<in>set before. \<not> is_archive e) \<and>
      spec_command (EntryName file) = Some (prog, args) \<and> unarchiveFile E w = (res, w') \<longrightarrow>
        (Remove (Path ''.'' (EntryName file)) \<in> set (drop (length (calls w)) (calls w'))
           \<longleftrightarrow> cmdError (runCommand E prog args (files w)) = None) \<and>
        (\<forall>err. cmdError (runCommand E prog args (files w)) = Some err \<longrightarrow>
           res = Some (UnarchiveError (EntryName file) err) \<and>
           files w' = cmdFiles (runCommand E prog args (files w)) \<and>
           stdout w' = stdout w @ cmdStdout (runCommand E prog args (files w))) \<and>
        (cmdError (runCommand E prog args (files w)) = None \<and> removeArchiveFails E = None \<and>
         cmdFiles (runCommand E prog args (files w)) (Path ''.'' (EntryName file)) \<noteq> None \<longrightarrow>
           res = None \<and>
           files w' = (cmdFiles (runCommand E prog args (files w)))(Path ''.'' (EntryName file) := None) \<and>
           stdout w' = stdout w @ cmdStdout (runCommand E prog args (files w)) @
             ''Unarchived and removed: '' @ EntryName file @ newline) \<and>
        (cmdError (runCommand E prog args (files w)) = None \<and>
         (removeArchiveFails E \<noteq> None \<or>
          cmdFiles (runCommand E prog args (files w)) (Path ''.'' (EntryName file)) = None) \<longrightarrow>
           (\<exists>err. res = Some (RemoveArchiveError err)) \<and>
           files w' = cmdFiles (runCommand E prog args (files w)) \<and>
           stdout w' = stdout w @ cmdStdout (runCommand E prog args (files w))))"
proof -
  have none: "unarchiveFile E w = (Some NoArchiveFound, w)" if "\<forall>e\<in>set entries. \<not> is_archive e"
  proof -
    have "find is_archive entries = None" using that by (simp add: find_None_iff)
    then show ?thesis using assms by (simp add: unarchiveFile_def unarchive_loop_none)
  qed
  have first: "(Remove (Path ''.'' (EntryName file)) \<in> set (drop (length (calls w)) (calls w'))
           \<longleftrightarrow> cmdError (runCommand E prog args (files w)) = None) \<and>
        (\<forall>err. cmdError (runCommand E prog args (files w)) = Some err \<longrightarrow>
           res = Some (UnarchiveError (EntryName file) err) \<and>
           files w' = cmdFiles (runCommand E prog args (files w)) \<and>
           stdout w' = stdout w @ cmdStdout (runCommand E prog args (files w))) \<and>
        (cmdError (runCommand E prog args (files w)) = None \<and> removeArchiveFails E = None \<and>
         cmdFiles (runCommand E prog args (files w)) (Path ''.'' (EntryName file)) \<noteq> None \<longrightarrow>
           res = None \<and>
           files w' = (cmdFiles (runCommand E prog args (files w)))(Path ''.'' (EntryName file) := None) \<and>
           stdout w' = stdout w @ cmdStdout (runCommand E prog args (files w)) @
             ''Unarchived and removed: '' @ EntryName file @ newline) \<and>
        (cmdError (runCommand E prog args (files w)) = None \<and>
         (removeArchiveFails E \<noteq> None \<or>
          cmdFiles (runCommand E prog args (files w)) (Path ''.'' (EntryName file)) = None) \<longrightarrow>
           (\<exists>err. res = Some (RemoveArchiveError err)) \<and>
           files w' = cmdFiles (runCommand E prog args (files w)) \<and>
           stdout w' = stdout w @ cmdStdout (runCommand E prog args (files w)))"
    if h: "entries = before @ file # rest \<and> (\<forall>e\<in>set before. \<not> is_archive e) \<and>
      spec_command (EntryName file) = Some (prog, args) \<and> unarchiveFile E w = (res, w')"
  proof -
    have c: "spec_command (EntryName file) = Some (prog, args)" using h by simp
    then have "is_archive file" by (simp add: is_archive_def)
    then have f: "find is_archive entries = Some file" using h by (simp add: find_first)
    have u: "unarchive_loop E entries w = (res, w')"
      using assms h by (simp add: unarchiveFile_def)
    have "calls w' = calls w @ (if cmdError (runCommand E prog args (files w)) = None
                      then [Exec prog args, Remove (Path ''.'' (EntryName file))]
                      else [Exec prog args])"
      using unarchive_calls(1) [OF f c, of E w] u by simp
    then have r: "Remove (Path ''.'' (EntryName file)) \<in> set (drop (length (calls w)) (calls w'))
           \<longleftrightarrow> cmdError (runCommand E prog args (files w)) = None"
      by simp
    show ?thesis
      using r unarchive_result [OF f c refl u] by blast
  qed
  show ?thesis using none first by blast
qed

theorem archive_removed_after_success_witness:
  "fst (unarchiveFile zip_env unpack_world) = None \<and>
   files (snd (unarchiveFile zip_env unpack_world)) (Path ''.'' ''data.zip'') = None \<and>
   stdout (snd (unarchiveFile zip_env unpack_world)) =
     ''Archive: data.zip'' @ newline @ ''Unarchived and removed: data.zip'' @ newline \<and>
   Remove (Path ''.'' ''data.zip'') \<in> set (calls (snd (unarchiveFile zip_env unpack_world)))"
proof -
  let ?notes = "file_entry \<lparr>Name = ''notes.txt'', ModTime = 1\<rparr>"
  have r: "readCurrentDir zip_env = Inr [file_entry data_zip, ?notes]"
    by (simp add: zip_env_def no_faults_def)
  have c: "spec_command (EntryName (file_entry data_zip)) = Some (''unzip'', [''data.zip''])"
    by (simp add: spec_command_def spec_table_def file_entry_def data_zip_def strings_ToLower_def
        filepath_Ext_def lower_byte_def)
  have e: "[file_entry data_zip, ?notes] = [] @ file_entry data_zip # [?notes]" by simp
  have k: "cmdError (runCommand zip_env ''unzip'' [''data.zip''] (files unpack_world)) = None"
    "cmdFiles (runCommand zip_env ''unzip'' [''data.zip''] (files unpack_world)) = files unpack_world"
    "cmdStdout (runCommand zip_env ''unzip'' [''data.zip''] (files unpack_world)) = ''Archive: data.zip'' @ newline"
    "removeArchiveFails zip_env = None"
    "calls unpack_world = []"
    "stdout unpack_world = []"
    "files unpack_world (Path ''.'' ''data.zip'') = Some ''PK''"
    by (simp_all add: zip_env_def no_faults_def unpack_world_def world_with_def)
  have n: "EntryName (file_entry data_zip) = ''data.zip''"
    by (simp add: file_entry_def data_zip_def)
  show ?thesis
    using archive_removed_after_success [OF r, of unpack_world "[]" "file_entry data_zip" "[?notes]"
        "''unzip''" "[''data.zip'']" "fst (unarchiveFile zip_env unpack_world)"
        "snd (unarchiveFile zip_env unpack_world)"] c k
    by (simp add: n)
qed

subsection \<open>The command\<close>

lemma moveNthNewestFile_ok:
  assumes "moveNthNewestFile E S dir n flt w = (Ok u, w1)"
  shows "\<exists>entries rf f. readSourceDir E = Inr entries \<and> collect flt entries [] = Inr rf \<and>
           selectFile S rf n flt = Ok f \<and> relocate E dir f w = (None, w1)"
  using assms
  by (auto simp: moveNthNewestFile_def moveFile_def finish_def
      split: sum.splits outcome.splits option.splits prod.splits)

lemma moveNthNewestFile_err:
  assumes "moveNthNewestFile E S dir n flt w = (Err e, w1)"
  shows "stdout w1 = stdout w \<and> stderr w1 = stderr w"
  using assms relocate_failure_files(2,3)
  by (auto simp: moveNthNewestFile_def moveFile_def finish_def
      split: sum.splits outcome.splits option.splits prod.splits)

lemma moveNthNewestFile_panic:
  assumes "moveNthNewestFile E S dir n flt w = (IndexPanic i k, w1)"
  shows "w1 = w"
  using assms
  by (auto simp: moveNthNewestFile_def moveFile_def finish_def
      split: sum.splits outcome.splits option.splits prod.splits)

lemma moveNthNewestFile_root_ok:
  assumes "moveNthNewestFile_root E S dir n flt w = (Ok u, w1)"
  shows "\<exists>entries rf f. readSourceDir E = Inr entries \<and> collect flt entries [] = Inr rf \<and>
           selectFile S rf n flt = Ok f \<and> relocate_root E dir f w = (None, w1)"
  using assms
  by (auto simp: moveNthNewestFile_root_def finish_def
      split: sum.splits outcome.splits option.splits prod.splits)

lemma moveNthNewestFile_root_err:
  assumes "moveNthNewestFile_root E S dir n flt w = (Err e, w1)"
  shows "stdout w1 = stdout w \<and> stderr w1 = stderr w"
  using assms relocate_root_failure
  by (auto simp: moveNthNewestFile_root_def finish_def
      split: sum.splits outcome.splits option.splits prod.splits)

lemma unarchive_loop_ok:
  assumes "unarchive_loop E es w = (None, w2)"
  shows "\<exists>file\<in>set es. \<exists>prog args. spec_command (EntryName file) = Some (prog, args) \<and>
           stdout w2 = stdout w @ cmdStdout (runCommand E prog args (files w)) @
             ''Unarchived and removed: '' @ EntryName file @ newline"
proof (cases "find is_archive es")
  case None
  then show ?thesis using assms by (simp add: unarchive_loop_none)
next
  case (Some found)
  then have "is_archive found" by (metis find_Some_iff)
  then obtain prog args where c: "spec_command (EntryName found) = Some (prog, args)"
    using is_archive_command by blast
  have m: "found \<in> set es" using Some by (metis find_Some_iff nth_mem)
  have "stdout w2 = stdout w @ cmdStdout (runCommand E prog args (files w)) @
             ''Unarchived and removed: '' @ EntryName found @ newline"
    using assms
    by (auto simp: unarchive_loop_first [OF Some c] cmd_Run_def os_defs Let_def
        split: option.splits if_splits)
  then show ?thesis using m c by blast
qed

lemma unarchiveFile_ok:
  assumes "unarchiveFile E w = (None, w2)"
  shows "\<exists>(file :: DirEntry) prog args. spec_command (EntryName file) = Some (prog, args) \<and>
           stdout w2 = stdout w @ cmdStdout (runCommand E prog args (files w)) @
             ''Unarchived and removed: '' @ EntryName file @ newline"
proof (cases "readCurrentDir E")
  case (Inl err)
  then show ?thesis using assms by (simp add: unarchiveFile_def)
next
  case (Inr entries)
  then have "unarchive_loop E entries w = (None, w2)"
    using assms by (simp add: unarchiveFile_def)
  from unarchive_loop_ok [OF this] show ?thesis by blast
qed

text \<open>
  C9, as the code has it. A fully successful run with the archive step prints the moved
  name, then what the tool prints, then the line of \<open>unarchiveFile\<close>: the name is not the
  only output. And the revision of \<open>src/cmd/root.go\<close> prints a sentence around the name.
\<close>

theorem sole_output_counterexample:
  "fst (Run zip_env insertion_sort downloads 1 True [] zip_world) = Exit 0 \<and>
   stdout (snd (Run zip_env insertion_sort downloads 1 True [] zip_world)) =
     ''data.zip'' @ newline @ ''Archive: data.zip'' @ newline @
     ''Unarchived and removed: data.zip'' @ newline \<and>
   stdout (snd (Run zip_env insertion_sort downloads 1 True [] zip_world)) \<noteq> ''data.zip'' @ newline \<and>
   fst (Run_root zip_env insertion_sort downloads 1 [] zip_world) = Exit 0 \<and>
   stdout (snd (Run_root zip_env insertion_sort downloads 1 [] zip_world)) =
     ''Moved data.zip to current directory'' @ newline"
  by (simp add: Run_def Run_root_def moveNthNewestFile_def moveNthNewestFile_root_def moveFile_def
      selectFile_def relocate_def relocate_root_def finish_def unarchiveFile_def
      zip_env_def no_faults_def zip_world_def world_with_def downloads_def
      file_entry_def data_zip_def Info_def insertion_sort_def archive_command_def strings_ToLower_def
      filepath_Ext_def lower_byte_def cmd_Run_def os_defs Let_def newline_def)

text \<open>
  C9, amended. A run ends with exit status 0, with exit status 1, or with a panic.
  It ends with 0 exactly when the move returned no error and, with the archive step
  asked for, that step returned no error; then standard output has gained the name of
  the moved file and a newline and, without the archive step, nothing else, while with
  the archive step the output of the tool and the line \<open>Unarchived and removed: ...\<close>
  follow. When the move or the archive step returns an error the run ends with 1 and
  the message, after \<open>Error: \<close> or \<open>Error unarchiving: \<close>, is added to standard error;
  after an error of the move nothing has been printed to standard output. In the
  revision of \<open>src/cmd/root.go\<close> a successful run prints \<open>Moved <name> to current directory\<close>.
\<close>

theorem run_outputs:
  assumes "Run E sort_Slice sourceDir nthNewest unarchive args w = (r, w')"
    and "fileFilter = (if 0 < length args then hd args else [])"
  shows
    "(r = Exit 0 \<or> r = Exit 1 \<or> r = PanicAbort) \<and>
     (r = Exit 0 \<longleftrightarrow>
        (\<exists>u w1. moveNthNewestFile E sort_Slice sourceDir nthNewest fileFilter w = (Ok u, w1) \<and>
                (unarchive \<longrightarrow> fst (unarchiveFile E w1) = None))) \<and>
     (r = Exit 0 \<longrightarrow>
        (\<exists>entries regularFiles fileToMove w1.
           readSourceDir E = Inr entries \<and> collect fileFilter entries [] = Inr regularFiles \<and>
           selectFile sort_Slice regularFiles nthNewest fileFilter = Ok fileToMove \<and>
           relocate E sourceDir fileToMove w = (None, w1) \<and>
           stdout w1 = stdout w @ Name fileToMove @ newline \<and>
           (\<not> unarchive \<longrightarrow> w' = w1 \<and> stderr w' = stderr w) \<and>
           (unarchive \<longrightarrow>
              (\<exists>(file :: DirEntry) prog cmdargs.
                 unarchiveFile E w1 = (None, w') \<and>
                 spec_command (EntryName file) = Some (prog, cmdargs) \<and>
                 stdout w' = stdout w @ Name fileToMove @ newline @
                   cmdStdout (runCommand E prog cmdargs (files w1)) @
                   ''Unarchived and removed: '' @ EntryName file @ newline)))) \<and>
     (r = Exit 1 \<longleftrightarrow>
        (\<exists>e w1. moveNthNewestFile E sort_Slice sourceDir nthNewest fileFilter w = (Err e, w1)) \<or>
        (unarchive \<and>
         (\<exists>u w1 e. moveNthNewestFile E sort_Slice sourceDir nthNewest fileFilter w = (Ok u, w1) \<and>
                   fst (unarchiveFile E w1) = Some e))) \<and>
     (\<forall>e w1. moveNthNewestFile E sort_Slice sourceDir nthNewest fileFilter w = (Err e, w1) \<longrightarrow>
        r = Exit 1 \<and> stdout w' = stdout w \<and>
        stderr w' = stderr w @ ''Error: '' @ message e @ newline) \<and>
     (\<forall>u w1 e w2. unarchive \<and>
        moveNthNewestFile E sort_Slice sourceDir nthNewest fileFilter w = (Ok u, w1) \<and>
        unarchiveFile E w1 = (Some e, w2) \<longrightarrow>
        r = Exit 1 \<and> stdout w' = stdout w2 \<and>
        stderr w' = stderr w2 @ ''Error unarchiving: '' @ message e @ newline) \<and>
     (r = PanicAbort \<longleftrightarrow>
        (\<exists>i k. moveNthNewestFile E sort_Slice sourceDir nthNewest fileFilter w = (IndexPanic i k, w))) \<and>
     (\<forall>w0. Run_root E sort_Slice sourceDir nthNewest args w = (Exit 0, w0) \<longrightarrow>
        (\<exists>fileToMove :: FileInfo. stdout w0 =
           stdout w @ ''Moved '' @ Name fileToMove @ '' to current directory'' @ newline)) \<and>
     (\<forall>w0. Run_root E sort_Slice sourceDir nthNewest args w = (Exit 1, w0) \<longrightarrow>
        (\<exists>e. stdout w0 = stdout w \<and> stderr w0 = stderr w @ ''Error: '' @ message e @ newline))"
proof -
  obtain res w1 where m: "moveNthNewestFile E sort_Slice sourceDir nthNewest fileFilter w = (res, w1)"
    by (cases "moveNthNewestFile E sort_Slice sourceDir nthNewest fileFilter w")
  have run: "Run E sort_Slice sourceDir nthNewest unarchive args w =
     (case res of
        IndexPanic i k \<Rightarrow> (PanicAbort, w1)
      | Err e \<Rightarrow> (Exit 1, Fprintf_Stderr (''Error: '' @ message e @ newline) w1)
      | Ok u \<Rightarrow>
          if unarchive then
            (case unarchiveFile E w1 of
               (Some e, w2) \<Rightarrow> (Exit 1, Fprintf_Stderr (''Error unarchiving: '' @ message e @ newline) w2)
             | (None, w2) \<Rightarrow> (Exit 0, w2))
          else (Exit 0, w1))"
    using m assms(2) by (simp add: Run_def Let_def split: outcome.splits)
  have root: "(\<forall>w0. Run_root E sort_Slice sourceDir nthNewest args w = (Exit 0, w0) \<longrightarrow>
        (\<exists>fileToMove :: FileInfo. stdout w0 =
           stdout w @ ''Moved '' @ Name fileToMove @ '' to current directory'' @ newline)) \<and>
     (\<forall>w0. Run_root E sort_Slice sourceDir nthNewest args w = (Exit 1, w0) \<longrightarrow>
        (\<exists>e. stdout w0 = stdout w \<and> stderr w0 = stderr w @ ''Error: '' @ message e @ newline))"
  proof -
    obtain res0 v where m0: "moveNthNewestFile_root E sort_Slice sourceDir nthNewest fileFilter w = (res0, v)"
      by (cases "moveNthNewestFile_root E sort_Slice sourceDir nthNewest fileFilter w")
    show ?thesis
    proof (cases res0)
      case (Ok u)
      then obtain f where "relocate_root E sourceDir f w = (None, v)"
        using moveNthNewestFile_root_ok m0 by blast
      then have "stdout v = stdout w @ ''Moved '' @ Name f @ '' to current directory'' @ newline"
        by (rule relocate_root_output)
      then show ?thesis using m0 Ok assms(2) by (auto simp: Run_root_def Let_def)
    next
      case (Err e)
      then have "stdout v = stdout w \<and> stderr v = stderr w"
        using moveNthNewestFile_root_err m0 by blast
      then show ?thesis using m0 Err assms(2) by (auto simp: Run_root_def Let_def Fprintf_Stderr_def)
    next
      case (IndexPanic i k)
      then show ?thesis using m0 assms(2) by (auto simp: Run_root_def Let_def)
    qed
  qed
  show ?thesis
  proof (cases res)
    case (IndexPanic i k)
    then have "w1 = w" using moveNthNewestFile_panic m by blast
    then show ?thesis using assms(1) run m IndexPanic root by auto
  next
    case (Err e)
    then have "stdout w1 = stdout w \<and> stderr w1 = stderr w"
      using moveNthNewestFile_err m by blast
    then show ?thesis using assms(1) run m Err root by (auto simp: Fprintf_Stderr_def)
  next
    case (Ok u)
    then obtain entries rf f where sel: "readSourceDir E = Inr entries"
      "collect fileFilter entries [] = Inr rf" "selectFile sort_Slice rf nthNewest fileFilter = Ok f"
      "relocate E sourceDir f w = (None, w1)"
      using moveNthNewestFile_ok m by blast
    have out: "stdout w1 = stdout w @ Name f @ newline" "stderr w1 = stderr w"
      using relocate_success_output [OF sel(4)] by simp_all
    show ?thesis
    proof (cases unarchive)
      case False
      then have "r = Exit 0" "w' = w1" using assms(1) run Ok by simp_all
      then show ?thesis using False m Ok sel out root by auto
    next
      case True
      obtain ures w2 where un: "unarchiveFile E w1 = (ures, w2)"
        by (cases "unarchiveFile E w1")
      show ?thesis
      proof (cases ures)
        case None
        then have rw: "r = Exit 0" "w' = w2" using assms(1) run Ok True un by simp_all
        obtain archive :: DirEntry and prog cmdargs where
          "spec_command (EntryName archive) = Some (prog, cmdargs)"
          "stdout w2 = stdout w1 @ cmdStdout (runCommand E prog cmdargs (files w1)) @
             ''Unarchived and removed: '' @ EntryName archive @ newline"
          using unarchiveFile_ok un None by blast
        then have "\<exists>(file :: DirEntry) prog cmdargs.
                 unarchiveFile E w1 = (None, w') \<and>
                 spec_command (EntryName file) = Some (prog, cmdargs) \<and>
                 stdout w' = stdout w @ Name f @ newline @
                   cmdStdout (runCommand E prog cmdargs (files w1)) @
                   ''Unarchived and removed: '' @ EntryName file @ newline"
          using un None rw out by auto
        then show ?thesis using rw True m Ok sel out un None root by auto
      next
        case (Some e)
        then have "r = Exit 1" "w' = Fprintf_Stderr (''Error unarchiving: '' @ message e @ newline) w2"
          using assms(1) run Ok True un by simp_all
        then show ?thesis using True m Ok un Some root by (auto simp: Fprintf_Stderr_def)
      qed
    qed
  qed
qed

theorem run_outputs_witness:
  "fst (Run zip_env insertion_sort downloads 1 False [''ZIP''] zip_world) = Exit 0 \<and>
   stdout (snd (Run zip_env insertion_sort downloads 1 False [''ZIP''] zip_world)) = ''data.zip'' @ newline \<and>
   stderr (snd (Run zip_env insertion_sort downloads 1 False [''ZIP''] zip_world)) = []"
proof -
  let ?r = "Run zip_env insertion_sort downloads 1 False [''ZIP''] zip_world"
  have e: "fst ?r = Exit 0"
    by (simp add: Run_def moveNthNewestFile_def moveFile_def
      selectFile_def relocate_def finish_def zip_env_def no_faults_def zip_world_def world_with_def
      downloads_def file_entry_def data_zip_def Info_def insertion_sort_def strings_ToLower_def
      lower_byte_def os_defs Let_def)
  then have p: "?r = (Exit 0, snd ?r)" by (simp add: prod_eq_iff)
  have c: "collect ''ZIP'' [file_entry data_zip] [] = Inr [data_zip]"
    by (simp add: file_entry_def data_zip_def Info_def strings_ToLower_def lower_byte_def)
  have s: "selectFile insertion_sort [data_zip] 1 ''ZIP'' = Ok data_zip"
    by (simp add: selectFile_def insertion_sort_def)
  have d: "readSourceDir zip_env = Inr [file_entry data_zip]"
    by (simp add: zip_env_def no_faults_def)
  have z: "stdout zip_world = []" "stderr zip_world = []"
    by (simp_all add: zip_world_def world_with_def)
  show ?thesis
    using run_outputs [OF p, of "''ZIP''"] e c s d z
    by (auto simp: data_zip_def)
qed

end
